theory Spec2Isabelle
  imports Complex_Main
begin

section \<open>Geofence exit detection and auto clock-out\<close>

text \<open>
  A shallow embedding of the edge functions \<^verbatim>\<open>track-location\<close>,
  \<^verbatim>\<open>check-grace-expiry\<close>, \<^verbatim>\<open>check-ot-autoclockout\<close> and
  \<^verbatim>\<open>check-clock-status\<close>.

  Conventions of the embedding:
  \<^item> a JavaScript \<^verbatim>\<open>number\<close> that holds a measurement (metres, hours, degrees) is a
    \<^typ>\<open>rat\<close>: comparisons are those of the source, arithmetic is exact (the rounding of
    IEEE doubles, \<^verbatim>\<open>NaN\<close> and the infinities are outside the model);
  \<^item> an instant (\<^verbatim>\<open>Date\<close>, a \<^verbatim>\<open>timestamptz\<close> column, an ISO string) is an
    \<^typ>\<open>int\<close>: milliseconds since the epoch, which is what \<^verbatim>\<open>getTime()\<close> returns;
  \<^item> a table is the list of its rows, a query is a \<open>filter\<close>, an update is a \<open>map\<close>;
    every query succeeds (transient datastore errors are outside the model);
  \<^item> a nullable column is an \<open>option\<close>.
\<close>

subsection \<open>Geofence math (track-location)\<close>

definition SAFE_OUT_TABLE :: "(rat \<times> rat) list" where
  "SAFE_OUT_TABLE = [(50, 90), (100, 150), (200, 260), (300, 380), (400, 500), (500, 625)]"

definition ACCURACY_PASS_M :: rat where
  "ACCURACY_PASS_M = 50"

definition AUTO_WINDOW_MINUTES :: int where
  "AUTO_WINDOW_MINUTES = 60"

text \<open>
  \<^verbatim>\<open>a || b\<close> on an optional number: \<^verbatim>\<open>undefined\<close>, \<^verbatim>\<open>null\<close> and \<open>0\<close> are falsy.
\<close>

definition falsy_num :: "rat option \<Rightarrow> bool" where
  "falsy_num x = (case x of None \<Rightarrow> True | Some v \<Rightarrow> v = 0)"

definition js_or :: "rat option \<Rightarrow> rat \<Rightarrow> rat" where
  "js_or x y = (case x of None \<Rightarrow> y | Some v \<Rightarrow> if v = 0 then y else v)"

text \<open>\<^verbatim>\<open>return SAFE_OUT_TABLE[radius] || radius * 1.25;\<close>\<close>

definition getSafeOutThreshold :: "rat \<Rightarrow> rat" where
  "getSafeOutThreshold radius = js_or (map_of SAFE_OUT_TABLE radius) (radius * 1.25)"

definition reliableExit :: "rat \<Rightarrow> rat \<Rightarrow> rat \<Rightarrow> rat \<Rightarrow> bool" where
  "reliableExit distance accuracy radius threshold =
     (if distance \<ge> threshold then True
      else if accuracy \<le> ACCURACY_PASS_M \<and> distance \<ge> radius + max 25 (accuracy / 2) then True
      else False)"

subsection \<open>Shift-end parsing (track-location)\<close>

text \<open>
  Strings are lists of 8-bit characters read as ASCII. \<open>is_space\<close> is the ASCII part of
  what \<^verbatim>\<open>trim()\<close> strips and \<^verbatim>\<open>\s\<close> matches; \<open>is_digit\<close> is \<^verbatim>\<open>\d\<close>.
\<close>

definition is_digit :: "char \<Rightarrow> bool" where
  "is_digit c = (48 \<le> (of_char c :: nat) \<and> (of_char c :: nat) \<le> 57)"

definition is_space :: "char \<Rightarrow> bool" where
  "is_space c = ((of_char c :: nat) \<in> {9, 10, 11, 12, 13, 32})"

definition trim :: "string \<Rightarrow> string" where
  "trim s = rev (dropWhile is_space (rev (dropWhile is_space s)))"

definition toLowerCase :: "string \<Rightarrow> string" where
  "toLowerCase s =
     map (\<lambda>c. if 65 \<le> (of_char c :: nat) \<and> (of_char c :: nat) \<le> 90
              then char_of ((of_char c :: nat) + 32) else c) s"

text \<open>\<^verbatim>\<open>parseInt(ds, 10)\<close> on a string of decimal digits (the only use the source makes of it).\<close>

definition parseInt :: "string \<Rightarrow> nat" where
  "parseInt ds = foldl (\<lambda>n c. 10 * n + ((of_char c :: nat) - 48)) 0 ds"

text \<open>
  \<^verbatim>\<open>s.match(/^(\d{1,2}):(\d{2})(?::\d{2})?$/)\<close>: the two captured groups. The leading
  digits have to be followed by a colon, so group 1 is the whole leading run of digits.
\<close>

definition match_24h :: "string \<Rightarrow> (string \<times> string) option" where
  "match_24h s =
     (let h = takeWhile is_digit s; r = dropWhile is_digit s in
      if length h = 1 \<or> length h = 2 then
        (case r of
           c # m1 # m2 # t \<Rightarrow>
             if c = CHR '':'' \<and> is_digit m1 \<and> is_digit m2 \<and>
                (case t of
                   [] \<Rightarrow> True
                 | [c2, s1, s2] \<Rightarrow> c2 = CHR '':'' \<and> is_digit s1 \<and> is_digit s2
                 | _ \<Rightarrow> False)
             then Some (h, [m1, m2]) else None
         | _ \<Rightarrow> None)
      else None)"

text \<open>
  \<^verbatim>\<open>s.match(/^(\d{1,2})(?::(\d{2}))?\s*(am|pm)$/)\<close>: the three groups, the second one
  optional.
\<close>

definition match_12h :: "string \<Rightarrow> (string \<times> string option \<times> string) option" where
  "match_12h s =
     (let h = takeWhile is_digit s; r = dropWhile is_digit s in
      if length h = 1 \<or> length h = 2 then
        (let (mm, r2) =
               (case r of
                  c # m1 # m2 # t \<Rightarrow>
                    if c = CHR '':'' \<and> is_digit m1 \<and> is_digit m2 then (Some [m1, m2], t)
                    else (None, r)
                | _ \<Rightarrow> (None, r));
             r3 = dropWhile is_space r2
         in if r3 = ''am'' \<or> r3 = ''pm'' then Some (h, mm, r3) else None)
      else None)"

definition parseShiftEnd :: "string \<Rightarrow> (nat \<times> nat) option" where
  "parseShiftEnd shiftEnd =
     (let s = toLowerCase (trim shiftEnd) in
      case match_24h s of
        Some (hs, ms) \<Rightarrow>
          (let hour = parseInt hs; minute = parseInt ms in
           if hour \<le> 23 \<and> minute \<le> 59 then Some (hour, minute) else None)
      | None \<Rightarrow>
          (case match_12h s of
             Some (hs, mo, meridiem) \<Rightarrow>
               (let hour = parseInt hs;
                    minute = (case mo of Some ms \<Rightarrow> parseInt ms | None \<Rightarrow> 0) in
                if hour < 1 \<or> hour > 12 \<or> minute > 59 then None
                else
                  (let hour1 = (if meridiem = ''pm'' \<and> hour \<noteq> 12 then hour + 12 else hour);
                       hour2 = (if meridiem = ''am'' \<and> hour1 = 12 then 0 else hour1)
                   in Some (hour2, minute)))
           | None \<Rightarrow> None))"

text \<open>\<^verbatim>\<open>String(n).padStart(2, "0")\<close> for a natural number \<open>n\<close>.\<close>

fun String_nat :: "nat \<Rightarrow> string" where
  "String_nat n =
     (if n < 10 then [char_of (48 + n)]
      else String_nat (n div 10) @ [char_of (48 + n mod 10)])"

declare String_nat.simps [simp del]

definition padStart2 :: "string \<Rightarrow> string" where
  "padStart2 s = replicate (2 - length s) (CHR ''0'') @ s"

definition normalizeShiftEnd :: "nat \<times> nat \<Rightarrow> string" where
  "normalizeShiftEnd p = padStart2 (String_nat (fst p)) @ '':'' @ padStart2 (String_nat (snd p))"

text \<open>
  \<^verbatim>\<open>d.setHours(h, m, 0, 0)\<close> on the date \<open>t\<close>: the instant at which the wall clock of the
  runtime's time zone shows \<open>h:m\<close> on the local calendar day of \<open>t\<close>. \<open>tz\<close> is the zone's
  offset from UTC in milliseconds, taken as constant over the day.
\<close>

definition setHours :: "int \<Rightarrow> int \<Rightarrow> nat \<Rightarrow> nat \<Rightarrow> int" where
  "setHours tz t h m =
     (let local = t + tz
      in local - local mod 86400000 + (int h * 60 + int m) * 60000 - tz)"

text \<open>
  \<open>checkLastHourWindow\<close>: both \<^verbatim>\<open>new Date()\<close> reads of the function are the instant
  \<open>now\<close>. The first argument (\<open>clockInIso\<close>) is not used by the source either.
\<close>

definition checkLastHourWindow :: "int \<Rightarrow> int \<Rightarrow> int \<Rightarrow> string \<Rightarrow> bool" where
  "checkLastHourWindow tz now clockInIso shiftEnd =
     (case parseShiftEnd shiftEnd of
        None \<Rightarrow> False
      | Some (hour, minute) \<Rightarrow>
          (let shiftEndTime = setHours tz now hour minute;
               windowStart = shiftEndTime - AUTO_WINDOW_MINUTES * 60 * 1000
           in now \<ge> windowStart \<and> now \<le> shiftEndTime))"

subsection \<open>The persisted model\<close>

type_synonym uuid = string

record job =
  job_id :: uuid
  job_latitude :: "rat option"
  job_longitude :: "rat option"
  geofence_radius :: "rat option"
  geofence_enabled :: "bool option"

record worker =
  worker_id :: uuid
  shift_end :: "string option"

record exit_data =
  xd_distance :: rat
  xd_accuracy :: rat
  xd_threshold :: rat
  xd_radius :: rat

record clock_entry =
  ce_id :: uuid
  ce_worker_id :: uuid
  ce_job_id :: uuid
  clock_in :: int
  clock_out :: "int option"
  clock_out_lat :: "rat option"
  clock_out_lng :: "rat option"
  is_overtime :: bool
  auto_clocked_out :: bool
  auto_clockout_type :: "string option"
  auto_clockout_reason :: "string option"
  total_hours :: "rat option"
  geofence_exit_data :: "exit_data option"
  ce_notes :: "string option"
  ce_status :: "string option"

record geofence_event =
  ev_id :: nat
  ev_worker_id :: uuid
  ev_clock_entry_id :: uuid
  ev_shift_date :: string
  ev_event_type :: string
  ev_latitude :: rat
  ev_longitude :: rat
  ev_accuracy :: rat
  ev_distance_from_center :: rat
  ev_job_radius :: rat
  ev_safe_out_threshold :: rat
  ev_timestamp :: int
  ev_resolved_at :: "int option"

record notification =
  n_worker_id :: uuid
  n_title :: string
  n_body :: string
  n_type :: string
  n_dedupe_key :: string
  n_created_at :: int

record notification_log_row =
  nl_worker_id :: uuid
  nl_notification_type :: string
  nl_shift_date :: string
  nl_sent_at :: int
  nl_canceled :: bool

record db =
  clock_entries :: "clock_entry list"
  jobs :: "job list"
  workers :: "worker list"
  geofence_events :: "geofence_event list"
  notifications :: "notification list"
  notification_log :: "notification_log_row list"

text \<open>
  The renderings of instants and numbers as text (\<^verbatim>\<open>toISOString\<close>,
  \<^verbatim>\<open>toLocaleTimeString\<close> and \<^verbatim>\<open>toLocaleDateString\<close> with their locale tag,
  \<^verbatim>\<open>toFixed\<close>, and a number inside a template string) belong to the JavaScript runtime;
  the functions below take them as a parameter.
\<close>

record js_text =
  toISOString :: "int \<Rightarrow> string"
  toLocaleTimeString :: "string \<Rightarrow> int \<Rightarrow> string"
  toLocaleDateString :: "string \<Rightarrow> int \<Rightarrow> string"
  toFixed :: "nat \<Rightarrow> rat \<Rightarrow> string"
  numToString :: "rat \<Rightarrow> string"

text \<open>\<^verbatim>\<open>d.toISOString().split("T")[0]\<close>\<close>

definition isoDate :: "js_text \<Rightarrow> int \<Rightarrow> string" where
  "isoDate F t = takeWhile (\<lambda>c. c \<noteq> CHR ''T'') (toISOString F t)"

text \<open>\<^verbatim>\<open>.single()\<close>: the row when the query has exactly one, an error otherwise.\<close>

definition single :: "'a list \<Rightarrow> 'a option" where
  "single rows = (case rows of [r] \<Rightarrow> Some r | _ \<Rightarrow> None)"

text \<open>
  An inserted event gets an identifier from the datastore, different from those of the rows
  the table holds.
\<close>

definition fresh_id :: "geofence_event list \<Rightarrow> nat" where
  "fresh_id evs = Suc (foldr max (map ev_id evs) 0)"

definition insert_event :: "geofence_event \<Rightarrow> db \<Rightarrow> db" where
  "insert_event e d =
     d\<lparr>geofence_events := geofence_events d @ [e\<lparr>ev_id := fresh_id (geofence_events d)\<rparr>]\<rparr>"

definition delete_event :: "nat \<Rightarrow> db \<Rightarrow> db" where
  "delete_event i d = d\<lparr>geofence_events := filter (\<lambda>e. ev_id e \<noteq> i) (geofence_events d)\<rparr>"

definition insert_notification :: "notification \<Rightarrow> db \<Rightarrow> db" where
  "insert_notification n d = d\<lparr>notifications := notifications d @ [n]\<rparr>"

subsection \<open>The Exit Classifier (track-location)\<close>

record LocationPayload =
  p_worker_id :: uuid
  p_clock_entry_id :: uuid
  p_latitude :: rat
  p_longitude :: rat
  p_accuracy :: rat
  p_timestamp :: int

record response =
  http_status :: nat
  r_status :: "string option"
  r_error :: "string option"
  r_message :: "string option"
  r_distance :: "rat option"
  r_threshold :: "rat option"

definition reply :: "nat \<Rightarrow> string \<Rightarrow> response" where
  "reply code st =
     \<lparr>http_status = code, r_status = Some st, r_error = None, r_message = None,
      r_distance = None, r_threshold = None\<rparr>"

definition reply_error :: "nat \<Rightarrow> string \<Rightarrow> response" where
  "reply_error code msg =
     \<lparr>http_status = code, r_status = None, r_error = Some msg, r_message = None,
      r_distance = None, r_threshold = None\<rparr>"

definition location_event ::
  "js_text \<Rightarrow> LocationPayload \<Rightarrow> clock_entry \<Rightarrow> string \<Rightarrow> rat \<Rightarrow> rat \<Rightarrow> rat \<Rightarrow> geofence_event" where
  "location_event F payload clockEntry ty distance radius threshold =
     \<lparr>ev_id = 0,
      ev_worker_id = p_worker_id payload,
      ev_clock_entry_id = p_clock_entry_id payload,
      ev_shift_date = isoDate F (clock_in clockEntry),
      ev_event_type = ty,
      ev_latitude = p_latitude payload,
      ev_longitude = p_longitude payload,
      ev_accuracy = p_accuracy payload,
      ev_distance_from_center = distance,
      ev_job_radius = radius,
      ev_safe_out_threshold = threshold,
      ev_timestamp = p_timestamp payload,
      ev_resolved_at = None\<rparr>"

text \<open>
  Step 6 of the handler for a regular shift: the response that ends the request before the
  exit test, or \<open>None\<close> when the sample is inside the last-hour window.
\<close>

definition window_gate ::
  "int \<Rightarrow> int \<Rightarrow> LocationPayload \<Rightarrow> clock_entry \<Rightarrow> rat \<Rightarrow> rat \<Rightarrow> db \<Rightarrow> response option" where
  "window_gate tz now payload clockEntry distance threshold d =
     (case single (filter (\<lambda>w. worker_id w = p_worker_id payload) (workers d)) of
        None \<Rightarrow> Some (reply 200 ''no_shift_end'')
      | Some w \<Rightarrow>
        (case shift_end w of
           None \<Rightarrow> Some (reply 200 ''no_shift_end'')
         | Some raw \<Rightarrow>
             if raw = [] then Some (reply 200 ''no_shift_end'')
             else
               (let shiftEndRaw = trim raw in
                if shiftEndRaw = [] then Some (reply 200 ''no_shift_end'')
                else
                  (case parseShiftEnd shiftEndRaw of
                     None \<Rightarrow>
                       Some ((reply 400 ''invalid_shift_end'')
                          \<lparr>r_error := Some ''shift_end must be in HH:MM, HH:MM:SS, or h:mm AM/PM format''\<rparr>)
                   | Some parsedShiftEnd \<Rightarrow>
                       (let normalizedShiftEnd = normalizeShiftEnd parsedShiftEnd;
                            isInLastHour =
                              checkLastHourWindow tz now (clock_in clockEntry) normalizedShiftEnd
                        in if \<not> isInLastHour
                           then Some ((reply 200 ''outside_window'')
                                  \<lparr>r_distance := Some distance, r_threshold := Some threshold\<rparr>)
                           else None)))))"

text \<open>
  The handler. \<open>calculateDistance\<close> (the haversine formula, in floating-point trigonometry)
  is a parameter; \<open>tz\<close> and \<open>now\<close> are the runtime's time zone offset and clock. The result
  is the new state and the response.
\<close>

definition track_location ::
  "js_text \<Rightarrow> int \<Rightarrow> int \<Rightarrow> (rat \<Rightarrow> rat \<Rightarrow> rat \<Rightarrow> rat \<Rightarrow> rat) \<Rightarrow> LocationPayload \<Rightarrow> db
     \<Rightarrow> db \<times> response" where
  "track_location F tz now calculateDistance payload d =
     (case single (filter (\<lambda>c. ce_id c = p_clock_entry_id payload \<and>
                               ce_worker_id c = p_worker_id payload \<and>
                               clock_out c = None) (clock_entries d)) of
        None \<Rightarrow> (d, reply 200 ''not_clocked_in'')
      | Some clockEntry \<Rightarrow>
        (case find (\<lambda>j. job_id j = ce_job_id clockEntry) (jobs d) of
           None \<Rightarrow> (d, reply_error 400 ''Invalid job data'')
         | Some job \<Rightarrow>
             if falsy_num (job_latitude job) \<or> falsy_num (job_longitude job) \<or>
                falsy_num (geofence_radius job)
             then (d, reply_error 400 ''Invalid job data'')
             else
               (let lat = the (job_latitude job); lon = the (job_longitude job);
                    radius = the (geofence_radius job) in
                if geofence_enabled job = Some False then
                  (insert_event (location_event F payload clockEntry ''location_fix'' 0 radius 0) d,
                   (reply 200 ''geofence_disabled'')
                     \<lparr>r_message := Some ''Location logged, no exit detection''\<rparr>)
                else
                  (let distance = calculateDistance (p_latitude payload) (p_longitude payload) lat lon;
                       threshold = getSafeOutThreshold radius;
                       d1 = insert_event
                              (location_event F payload clockEntry ''location_fix'' distance radius threshold) d
                   in
                     (case (if is_overtime clockEntry then None
                            else window_gate tz now payload clockEntry distance threshold d1) of
                        Some r \<Rightarrow> (d1, r)
                      | None \<Rightarrow>
                          if \<not> reliableExit distance (p_accuracy payload) radius threshold
                          then (d1, (reply 200 ''inside_fence'')
                                      \<lparr>r_distance := Some distance, r_threshold := Some threshold\<rparr>)
                          else
                            (insert_event
                               (location_event F payload clockEntry ''exit_detected'' distance radius threshold) d1,
                             (reply 200 ''exit_detected'')
                               \<lparr>r_message := Some ''Exit recorded. Auto-clockout will be processed by cron job after grace period.'',
                                r_distance := Some distance, r_threshold := Some threshold\<rparr>))))))"

subsection \<open>The Grace Resolver (check-grace-expiry)\<close>

definition GRACE_MINUTES :: int where
  "GRACE_MINUTES = 4"

definition RACE_BUFFER_SEC :: int where
  "RACE_BUFFER_SEC = 60"

definition AUTO_DELAY_MS :: int where
  "AUTO_DELAY_MS = (GRACE_MINUTES * 60 + RACE_BUFFER_SEC) * 1000"

text \<open>
  The predicate of \<^verbatim>\<open>recentFixes.some(...)\<close> and \<^verbatim>\<open>recentFixes.find(...)\<close>: the fix
  shows the worker back inside with a reliable accuracy.
\<close>

definition back_inside :: "geofence_event \<Rightarrow> bool" where
  "back_inside fix =
     (ev_distance_from_center fix \<le> ev_job_radius fix \<and> ev_accuracy fix \<le> ACCURACY_PASS_M)"

text \<open>The query of step 2: the \<^verbatim>\<open>re_entry\<close> and \<^verbatim>\<open>exit_confirmed\<close> rows of a session.\<close>

definition existingEvents :: "uuid \<Rightarrow> db \<Rightarrow> geofence_event list" where
  "existingEvents cid d =
     filter (\<lambda>e. ev_clock_entry_id e = cid \<and>
                  (ev_event_type e = ''re_entry'' \<or> ev_event_type e = ''exit_confirmed''))
       (geofence_events d)"

text \<open>The query of step 2b: the \<^verbatim>\<open>location_fix\<close> rows of the session after the exit.\<close>

definition recentFixes :: "geofence_event \<Rightarrow> db \<Rightarrow> geofence_event list" where
  "recentFixes exit d =
     filter (\<lambda>e. ev_clock_entry_id e = ev_clock_entry_id exit \<and>
                  ev_event_type e = ''location_fix'' \<and>
                  ev_timestamp e > ev_timestamp exit)
       (geofence_events d)"

definition re_entry_event :: "js_text \<Rightarrow> int \<Rightarrow> geofence_event \<Rightarrow> geofence_event option \<Rightarrow> geofence_event" where
  "re_entry_event F now exit mostRecentFix =
     \<lparr>ev_id = 0,
      ev_worker_id = ev_worker_id exit,
      ev_clock_entry_id = ev_clock_entry_id exit,
      ev_shift_date = isoDate F now,
      ev_event_type = ''re_entry'',
      ev_latitude = ev_latitude exit,
      ev_longitude = ev_longitude exit,
      ev_accuracy = js_or (map_option ev_accuracy mostRecentFix) (ev_accuracy exit),
      ev_distance_from_center =
        js_or (map_option ev_distance_from_center mostRecentFix) (ev_distance_from_center exit),
      ev_job_radius = ev_job_radius exit,
      ev_safe_out_threshold = ev_safe_out_threshold exit,
      ev_timestamp = now,
      ev_resolved_at = None\<rparr>"

text \<open>
  Step 4: the conditional update
  \<^verbatim>\<open>.update({...}).eq("id", exit.clock_entry_id).is("clock_out", null)\<close>.
\<close>

definition geofence_clock_out :: "js_text \<Rightarrow> geofence_event \<Rightarrow> clock_entry \<Rightarrow> clock_entry \<Rightarrow> clock_entry" where
  "geofence_clock_out F exit clockEntry c =
     (let clockOutTime = ev_timestamp exit;
          totalHours = of_int (clockOutTime - clock_in clockEntry) / (1000 * 60 * 60)
      in if ce_id c = ev_clock_entry_id exit \<and> clock_out c = None
         then c\<lparr>clock_out := Some clockOutTime,
                clock_out_lat := Some (ev_latitude exit),
                clock_out_lng := Some (ev_longitude exit),
                auto_clocked_out := True,
                auto_clockout_type := Some ''geofence'',
                total_hours := Some totalHours,
                geofence_exit_data :=
                  Some \<lparr>xd_distance = ev_distance_from_center exit,
                        xd_accuracy = ev_accuracy exit,
                        xd_threshold = ev_safe_out_threshold exit,
                        xd_radius = ev_job_radius exit\<rparr>,
                ce_notes := Some (''Auto clocked-out by geofence exit at '' @
                                  toLocaleTimeString F [] clockOutTime @ '' (left job site)'')\<rparr>
         else c)"

definition exit_confirmed_event :: "js_text \<Rightarrow> geofence_event \<Rightarrow> clock_entry \<Rightarrow> geofence_event" where
  "exit_confirmed_event F exit clockEntry =
     \<lparr>ev_id = 0,
      ev_worker_id = ev_worker_id exit,
      ev_clock_entry_id = ev_clock_entry_id exit,
      ev_shift_date = isoDate F (clock_in clockEntry),
      ev_event_type = ''exit_confirmed'',
      ev_latitude = ev_latitude exit,
      ev_longitude = ev_longitude exit,
      ev_accuracy = ev_accuracy exit,
      ev_distance_from_center = ev_distance_from_center exit,
      ev_job_radius = ev_job_radius exit,
      ev_safe_out_threshold = ev_safe_out_threshold exit,
      ev_timestamp = ev_timestamp exit,
      ev_resolved_at = None\<rparr>"

definition geofence_notification :: "js_text \<Rightarrow> int \<Rightarrow> geofence_event \<Rightarrow> notification" where
  "geofence_notification F now exit =
     (let clockOutTime = ev_timestamp exit;
          clockOutTimeFormatted = toLocaleTimeString F ''en-GB hour:2-digit minute:2-digit'' clockOutTime;
          clockOutDateFormatted = toLocaleDateString F ''en-GB'' clockOutTime;
          clockOutDate = isoDate F clockOutTime
      in \<lparr>n_worker_id = ev_worker_id exit,
          n_title = ''Auto Clocked-Out - Left Job Site'',
          n_body =
            ''You were automatically clocked out at '' @ clockOutTimeFormatted @ '' on '' @
            clockOutDateFormatted @ ''.'' @ [CHR 0x0A, CHR 0x0A] @
            ''Reason: You left the job site geofence area within 1 hour before your scheduled shift end time. Your location was detected '' @
            toFixed F 0 (ev_distance_from_center exit) @ ''m from the site center (threshold: '' @
            numToString F (ev_safe_out_threshold exit) @ ''m).'' @ [CHR 0x0A, CHR 0x0A] @
            ''If this timestamp is incorrect or you did not leave the site, please submit a Time Amendment request in the app.'',
          n_type = ''geofence_auto_clockout'',
          n_dedupe_key = ev_worker_id exit @ '':'' @ clockOutDate @ '':auto_clockout_geofence'',
          n_created_at = now\<rparr>)"

text \<open>Steps 4 to 6 for a row that is to be finalized.\<close>

definition finalize_exit :: "js_text \<Rightarrow> int \<Rightarrow> geofence_event \<Rightarrow> clock_entry \<Rightarrow> db \<Rightarrow> db" where
  "finalize_exit F now exit clockEntry d =
     (let d1 = d\<lparr>clock_entries := map (geofence_clock_out F exit clockEntry) (clock_entries d)\<rparr>;
          d2 = insert_event (exit_confirmed_event F exit clockEntry) d1;
          d3 = delete_event (ev_id exit) d2
      in insert_notification (geofence_notification F now exit) d3)"

text \<open>
  The body of the loop \<^verbatim>\<open>for (const exit of exits)\<close>; each \<^verbatim>\<open>continue\<close> returns the
  state reached so far. The reads of the clock during one invocation are the instant \<open>now\<close>.
\<close>

definition process_exit :: "js_text \<Rightarrow> int \<Rightarrow> geofence_event \<Rightarrow> db \<Rightarrow> db" where
  "process_exit F now exit d =
     (if existingEvents (ev_clock_entry_id exit) d \<noteq> [] then delete_event (ev_id exit) d
      else if recentFixes exit d \<noteq> [] \<and> list_ex back_inside (recentFixes exit d) then
        (let mostRecentFix = find back_inside (recentFixes exit d)
         in delete_event (ev_id exit) (insert_event (re_entry_event F now exit mostRecentFix) d))
      else
        (case single (filter (\<lambda>c. ce_id c = ev_clock_entry_id exit) (clock_entries d)) of
           None \<Rightarrow> d
         | Some clockEntry \<Rightarrow>
             if is_overtime clockEntry then d
             else if clock_out clockEntry \<noteq> None \<and> \<not> auto_clocked_out clockEntry then d
             else finalize_exit F now exit clockEntry d))"

datatype sweep_result = NoPendingExits | Processed nat

text \<open>
  The clean-up query:
  \<^verbatim>\<open>.delete().eq("event_type", "exit_detected").lt("timestamp", staleThreshold)\<close>.
\<close>

definition purge_stale_exits :: "int \<Rightarrow> db \<Rightarrow> db" where
  "purge_stale_exits staleThreshold d =
     d\<lparr>geofence_events :=
         filter (\<lambda>e. \<not> (ev_event_type e = ''exit_detected'' \<and> ev_timestamp e < staleThreshold))
           (geofence_events d)\<rparr>"

text \<open>
  The query for the rows to review:
  \<^verbatim>\<open>.eq("event_type", "exit_detected").lt("timestamp", cutoffTime).gt("timestamp", staleThreshold)\<close>.
\<close>

definition expired_exits :: "int \<Rightarrow> int \<Rightarrow> db \<Rightarrow> geofence_event list" where
  "expired_exits cutoffTime staleThreshold d =
     filter (\<lambda>e. ev_event_type e = ''exit_detected'' \<and>
                  ev_timestamp e < cutoffTime \<and> ev_timestamp e > staleThreshold)
       (geofence_events d)"

text \<open>
  One invocation of the function: the clean-up of stale rows, the query for the expired
  exits, and the loop over the rows that query returned.
\<close>

definition check_grace_expiry :: "js_text \<Rightarrow> int \<Rightarrow> db \<Rightarrow> db \<times> sweep_result" where
  "check_grace_expiry F now d =
     (let cutoffTime = now - AUTO_DELAY_MS;
          staleThreshold = now - 24 * 60 * 60 * 1000;
          d1 = purge_stale_exits staleThreshold d;
          exits = expired_exits cutoffTime staleThreshold d1
      in if exits = [] then (d1, NoPendingExits)
         else (fold (process_exit F now) exits d1, Processed (length exits)))"

subsection \<open>The Overtime Monitor (check-ot-autoclockout)\<close>

definition MAX_OT_HOURS :: rat where
  "MAX_OT_HOURS = 3"

definition GRACE_PERIOD_MINUTES :: int where
  "GRACE_PERIOD_MINUTES = 5"

text \<open>
  \<^verbatim>\<open>.update({ resolved_at: t }).eq("clock_entry_id", id).eq("event_type", "exit_detected")
  .is("resolved_at", null)\<close>
\<close>

definition resolve_exit_events :: "uuid \<Rightarrow> int \<Rightarrow> db \<Rightarrow> db" where
  "resolve_exit_events cid t d =
     d\<lparr>geofence_events :=
         map (\<lambda>e. if ev_clock_entry_id e = cid \<and> ev_event_type e = ''exit_detected'' \<and>
                      ev_resolved_at e = None
                   then e\<lparr>ev_resolved_at := Some t\<rparr> else e)
           (geofence_events d)\<rparr>"

text \<open>
  \<open>autoClockOut\<close>: \<open>clockOutTime\<close> is its read of the clock. \<open>entry\<close> is the row the sweep
  selected (the function reads its \<open>id\<close>, \<open>worker_id\<close> and \<open>clock_in\<close>). The update of
  \<^verbatim>\<open>clock_entries\<close> is \<^verbatim>\<open>.update({...}).eq('id', entry.id)\<close>. The push notification
  that follows writes nothing to the tables.
\<close>

definition autoClockOut :: "js_text \<Rightarrow> int \<Rightarrow> clock_entry \<Rightarrow> string \<Rightarrow> db \<Rightarrow> db" where
  "autoClockOut F clockOutTime entry reason d =
     (let totalHours = of_int (clockOutTime - clock_in entry) / (1000 * 60 * 60);
          d1 = d\<lparr>clock_entries :=
                   map (\<lambda>c. if ce_id c = ce_id entry
                             then c\<lparr>clock_out := Some clockOutTime,
                                    auto_clocked_out := True,
                                    auto_clockout_reason := Some reason,
                                    total_hours := Some totalHours,
                                    ce_notes := Some (''Auto clocked-out OT ('' @ reason @ '')'')\<rparr>
                             else c)
                     (clock_entries d)\<rparr>;
          d2 = resolve_exit_events (ce_id entry) clockOutTime d1
      in insert_notification
           \<lparr>n_worker_id = ce_worker_id entry,
            n_title = ''Overtime Auto Clock-Out'',
            n_body = ''You were automatically clocked out from your overtime. Reason: '' @ reason,
            n_type = ''overtime_auto_clockout'',
            n_dedupe_key = ''ot_auto_'' @ ce_id entry @ ''_'' @ toISOString F clockOutTime,
            n_created_at = clockOutTime\<rparr> d2)"

text \<open>
  The unresolved \<^verbatim>\<open>exit_detected\<close> rows of a session. The source orders them by
  timestamp, newest first, and, when there is one, reads the timestamp of the last row: the
  earliest.
\<close>

definition unresolved_exits :: "uuid \<Rightarrow> db \<Rightarrow> geofence_event list" where
  "unresolved_exits cid d =
     filter (\<lambda>e. ev_clock_entry_id e = cid \<and> ev_event_type e = ''exit_detected'' \<and>
                  ev_resolved_at e = None)
       (geofence_events d)"

definition earliest_timestamp :: "geofence_event list \<Rightarrow> int option" where
  "earliest_timestamp evs =
     (case evs of
        [] \<Rightarrow> None
      | e # es \<Rightarrow> Some (fold min (map ev_timestamp es) (ev_timestamp e)))"

text \<open>
  The body of the loop over the active overtime entries. \<open>now\<close> is the instant read at the
  start of the invocation, \<open>clk\<close> gives the later instant that \<open>autoClockOut\<close> reads for an
  entry. The second component counts the entries clocked out.
\<close>

definition ot_check_entry ::
  "js_text \<Rightarrow> int \<Rightarrow> (uuid \<Rightarrow> int) \<Rightarrow> clock_entry \<Rightarrow> db \<times> nat \<Rightarrow> db \<times> nat" where
  "ot_check_entry F now clk entry acc =
     (let d = fst acc; autoClockedOut = snd acc;
          hoursWorked = of_int (now - clock_in entry) / (1000 * 60 * 60);
          exitEvents = unresolved_exits (ce_id entry) d;
          gracePeriodMs = GRACE_PERIOD_MINUTES * 60 * 1000;
          check2 =
            (if hoursWorked \<ge> MAX_OT_HOURS then
               (autoClockOut F (clk (ce_id entry)) entry
                  ''Maximum 3-hour overtime limit reached. If you worked longer, please request a time amendment.'' d,
                autoClockedOut + 1)
             else (d, autoClockedOut))
      in case earliest_timestamp exitEvents of
           None \<Rightarrow> check2
         | Some exitTime \<Rightarrow>
             if now - exitTime \<ge> gracePeriodMs then
               (autoClockOut F (clk (ce_id entry)) entry
                  (''Left job site at '' @
                   toLocaleTimeString F ''en-US hour:numeric minute:2-digit hour12'' exitTime @
                   '' during overtime'') d,
                autoClockedOut + 1)
             else check2)"

datatype ot_sweep_result = NoActiveOT | OTCheckComplete nat nat

definition check_ot_autoclockout ::
  "js_text \<Rightarrow> int \<Rightarrow> (uuid \<Rightarrow> int) \<Rightarrow> db \<Rightarrow> db \<times> ot_sweep_result" where
  "check_ot_autoclockout F now clk d =
     (let activeOTs = filter (\<lambda>c. is_overtime c \<and> clock_out c = None) (clock_entries d)
      in if activeOTs = [] then (d, NoActiveOT)
         else (let r = fold (ot_check_entry F now clk) activeOTs (d, 0)
               in (fst r, OTCheckComplete (length activeOTs) (snd r))))"

subsection \<open>The overtime sweep of check-clock-status\<close>

text \<open>\<^verbatim>\<open>s.includes(pat)\<close>\<close>

fun js_includes :: "string \<Rightarrow> string \<Rightarrow> bool" where
  "js_includes [] pat = (pat = [])"
| "js_includes (c # cs) pat = (take (length pat) (c # cs) = pat \<or> js_includes cs pat)"

text \<open>
  \<open>sendNotification\<close>: \<^verbatim>\<open>maybeSingle()\<close> yields a row only when exactly one row has the
  key; the insert is skipped in that case.
\<close>

definition sendNotification ::
  "js_text \<Rightarrow> int \<Rightarrow> uuid \<Rightarrow> string \<Rightarrow> string \<Rightarrow> string \<Rightarrow> int \<Rightarrow> db \<Rightarrow> db" where
  "sendNotification F now wid title body ty date d =
     (let key = wid @ '':'' @ isoDate F date @ '':'' @ ty
      in case single (filter (\<lambda>n. n_dedupe_key n = key) (notifications d)) of
           Some ex \<Rightarrow> d
         | None \<Rightarrow>
             insert_notification
               \<lparr>n_worker_id = wid, n_title = title, n_body = body, n_type = ty,
                n_dedupe_key = key, n_created_at = now\<rparr> d)"

definition logNotification :: "js_text \<Rightarrow> int \<Rightarrow> uuid \<Rightarrow> string \<Rightarrow> int \<Rightarrow> db \<Rightarrow> db" where
  "logNotification F now wid ty date d =
     d\<lparr>notification_log := notification_log d @
         [\<lparr>nl_worker_id = wid, nl_notification_type = ty, nl_shift_date = isoDate F date,
           nl_sent_at = now, nl_canceled = False\<rparr>]\<rparr>"

text \<open>
  \<open>autoClockOutOT\<close>: \<open>now\<close> is its read of the clock, \<open>forcedHours\<close> the optional last
  argument (\<^verbatim>\<open>forcedHours ?? Math.max(0, actualHrs)\<close>).
\<close>

definition autoClockOutOT ::
  "js_text \<Rightarrow> int \<Rightarrow> clock_entry \<Rightarrow> int \<Rightarrow> string \<Rightarrow> rat option \<Rightarrow> db \<Rightarrow> db" where
  "autoClockOutOT F now ot date reason forcedHours d =
     (let actualHrs = of_int (now - clock_in ot) / 3600000;
          totalHrs = (case forcedHours of Some h \<Rightarrow> h | None \<Rightarrow> max 0 actualHrs);
          cappedHrs = (if totalHrs > 3 then 3 else totalHrs);
          d1 = d\<lparr>clock_entries :=
                   map (\<lambda>c. if ce_id c = ce_id ot
                             then c\<lparr>clock_out := Some now,
                                    auto_clocked_out := True,
                                    auto_clockout_type :=
                                      Some (if js_includes reason ''site'' then ''geofence_based''
                                            else ''time_based''),
                                    total_hours := Some cappedHrs,
                                    ce_notes := Some (''Auto clocked-out: '' @ reason),
                                    ce_status := Some ''pending''\<rparr>
                             else c)
                     (clock_entries d)\<rparr>;
          d2 = resolve_exit_events (ce_id ot) now d1;
          title = (if js_includes reason ''site'' then ''Auto Clocked-Out - Left Site During OT''
                   else ''Auto Clocked-Out - 3 Hour OT Limit Reached'');
          body = ''You were automatically clocked out from overtime. '' @ reason;
          d3 = sendNotification F now (ce_worker_id ot) title body ''ot_auto_clockout'' date d2
      in logNotification F now (ce_worker_id ot) ''ot_auto_clockout'' date d3)"

text \<open>
  The body of the loop of \<open>checkActiveOvertimeSessions\<close>. \<open>tick\<close> gives the instant the
  iteration reads for an entry, \<open>tock\<close> the later one \<open>autoClockOutOT\<close> reads.
\<close>

definition ot_session_step ::
  "js_text \<Rightarrow> (uuid \<Rightarrow> int) \<Rightarrow> (uuid \<Rightarrow> int) \<Rightarrow> int \<Rightarrow> clock_entry \<Rightarrow> db \<times> nat \<Rightarrow> db \<times> nat" where
  "ot_session_step F tick tock date ot acc =
     (let d = fst acc; clockedOut = snd acc;
          now = tick (ce_id ot);
          hrs = of_int (now - clock_in ot) / 3600000;
          exits = unresolved_exits (ce_id ot) d;
          graceMs = 5 * 60 * 1000;
          limit =
            (if hrs \<ge> 3 \<and> hrs \<le> 3.167 then
               (autoClockOutOT F (tock (ce_id ot)) ot date
                  (''3-hour OT limit reached ('' @ toFixed F 2 hrs @ ''h)'') (Some 3) d,
                clockedOut + 1)
             else if hrs > 3.167 then
               (autoClockOutOT F (tock (ce_id ot)) ot date
                  (''Exceeded 3-hour OT limit ('' @ toFixed F 2 hrs @ ''h) - catch-up'') (Some 3) d,
                clockedOut + 1)
             else (d, clockedOut))
      in case earliest_timestamp exits of
           None \<Rightarrow> limit
         | Some exitTime \<Rightarrow>
             if now - exitTime \<ge> graceMs then
               (autoClockOutOT F (tock (ce_id ot)) ot date
                  (''Left job site at '' @ toLocaleTimeString F ''en-GB'' exitTime @ '' during overtime'')
                  (Some hrs) d,
                clockedOut + 1)
             else limit)"

definition checkActiveOvertimeSessions ::
  "js_text \<Rightarrow> (uuid \<Rightarrow> int) \<Rightarrow> (uuid \<Rightarrow> int) \<Rightarrow> int \<Rightarrow> db \<Rightarrow> db \<times> nat" where
  "checkActiveOvertimeSessions F tick tock date d =
     (let activeOTs = filter (\<lambda>c. is_overtime c \<and> clock_out c = None \<and> \<not> auto_clocked_out c)
                        (clock_entries d)
      in fold (ot_session_step F tick tock date) activeOTs (d, 0))"

subsection \<open>Concrete states\<close>

text \<open>
  States on which the functions are evaluated below. \<open>plain_text\<close> is a rendering that
  writes every instant and number as the empty string.
\<close>

definition plain_text :: js_text where
  "plain_text =
     \<lparr>toISOString = (\<lambda>t. []), toLocaleTimeString = (\<lambda>l t. []),
      toLocaleDateString = (\<lambda>l t. []), toFixed = (\<lambda>n x. []), numToString = (\<lambda>x. [])\<rparr>"

text \<open>A session of worker \<open>w1\<close> on job \<open>j1\<close>, clocked in at instant \<open>0\<close> and still open.\<close>

definition open_session :: clock_entry where
  "open_session =
     \<lparr>ce_id = ''s1'', ce_worker_id = ''w1'', ce_job_id = ''j1'', clock_in = 0, clock_out = None,
      clock_out_lat = None, clock_out_lng = None, is_overtime = False, auto_clocked_out = False,
      auto_clockout_type = None, auto_clockout_reason = None, total_hours = None,
      geofence_exit_data = None, ce_notes = None, ce_status = None\<rparr>"

text \<open>
  An \<^verbatim>\<open>exit_detected\<close> row of that session, two hours after the clock-in: 150 m from the
  centre of a 100 m fence, with a 10 m fix.
\<close>

definition exit_row :: geofence_event where
  "exit_row =
     \<lparr>ev_id = 1, ev_worker_id = ''w1'', ev_clock_entry_id = ''s1'', ev_shift_date = [],
      ev_event_type = ''exit_detected'', ev_latitude = 51, ev_longitude = 0, ev_accuracy = 10,
      ev_distance_from_center = 150, ev_job_radius = 100, ev_safe_out_threshold = 150,
      ev_timestamp = 7200000, ev_resolved_at = None\<rparr>"

text \<open>A later \<^verbatim>\<open>location_fix\<close> of the session, 40 m from the centre with a 10 m fix.\<close>

definition inside_fix :: geofence_event where
  "inside_fix =
     exit_row\<lparr>ev_id := 2, ev_event_type := ''location_fix'', ev_distance_from_center := 40,
              ev_timestamp := 7260000\<rparr>"

text \<open>A \<^verbatim>\<open>re_entry\<close> row of the session, from an earlier excursion.\<close>

definition earlier_re_entry :: geofence_event where
  "earlier_re_entry =
     exit_row\<lparr>ev_id := 0, ev_event_type := ''re_entry'', ev_distance_from_center := 30,
              ev_timestamp := 3600000\<rparr>"

definition store :: "clock_entry list \<Rightarrow> geofence_event list \<Rightarrow> db" where
  "store sessions events =
     \<lparr>clock_entries = sessions, jobs = [], workers = [], geofence_events = events,
      notifications = [], notification_log = []\<rparr>"

text \<open>
  A regular session on a job with a 100 m fence, for a worker whose shift ends at 17:00, and a
  location sample of that session. \<open>far_away\<close> and \<open>close_by\<close> stand for \<open>calculateDistance\<close>
  on samples 150 m and 40 m from the centre.
\<close>

definition site_store :: db where
  "site_store =
     \<lparr>clock_entries = [open_session],
      jobs = [\<lparr>job_id = ''j1'', job_latitude = Some 51, job_longitude = Some 1,
               geofence_radius = Some 100, geofence_enabled = Some True\<rparr>],
      workers = [\<lparr>worker_id = ''w1'', shift_end = Some ''17:00''\<rparr>],
      geofence_events = [], notifications = [], notification_log = []\<rparr>"

definition sample :: LocationPayload where
  "sample =
     \<lparr>p_worker_id = ''w1'', p_clock_entry_id = ''s1'', p_latitude = 51, p_longitude = 1,
      p_accuracy = 10, p_timestamp = 0\<rparr>"

definition far_away :: "rat \<Rightarrow> rat \<Rightarrow> rat \<Rightarrow> rat \<Rightarrow> rat" where
  "far_away lat1 lon1 lat2 lon2 = 150"

definition close_by :: "rat \<Rightarrow> rat \<Rightarrow> rat \<Rightarrow> rat \<Rightarrow> rat" where
  "close_by lat1 lon1 lat2 lon2 = 40"

text \<open>
  An open overtime session clocked in at instant \<open>0\<close>, and the same row after the worker
  clocked out by hand half a second past the third hour.
\<close>

definition overtime_session :: clock_entry where
  "overtime_session = open_session\<lparr>is_overtime := True\<rparr>"

definition closed_overtime_session :: clock_entry where
  "closed_overtime_session =
     overtime_session\<lparr>clock_out := Some 10800500, total_hours := Some (21601 / 7200)\<rparr>"

section \<open>Properties\<close>

subsection \<open>Geofence math\<close>

lemma getSafeOutThreshold_off_table:
  "radius \<notin> {50, 100, 200, 300, 400, 500} \<Longrightarrow> getSafeOutThreshold radius = 1.25 * radius"
  by (simp add: getSafeOutThreshold_def SAFE_OUT_TABLE_def js_or_def)

lemma getSafeOutThreshold_above_radius:
  assumes "0 < radius"
  shows "radius < getSafeOutThreshold radius"
proof (cases "radius \<in> {50, 100, 200, 300, 400, 500}")
  case True
  then show ?thesis
    by (auto simp: getSafeOutThreshold_def SAFE_OUT_TABLE_def js_or_def)
next
  case False
  then have "getSafeOutThreshold radius = 1.25 * radius"
    by (rule getSafeOutThreshold_off_table)
  with assms show ?thesis by simp
qed

lemma reliableExit_inside_False:
  assumes "0 < radius" and "distance \<le> radius"
  shows "\<not> reliableExit distance accuracy radius (getSafeOutThreshold radius)"
proof -
  have "distance < getSafeOutThreshold radius"
    using getSafeOutThreshold_above_radius [OF assms(1)] assms(2) by simp
  moreover have "distance < radius + max 25 (accuracy / 2)"
    using assms(2) by (simp add: max_def)
  ultimately show ?thesis
    by (simp add: reliableExit_def)
qed

text \<open>
  C7. For all inputs, \<open>reliableExit distance accuracy radius threshold\<close> is true if and only
  if \<open>distance \<ge> threshold\<close>, or \<open>accuracy \<le> 50\<close> and
  \<open>distance \<ge> radius + max 25 (accuracy / 2)\<close>.
\<close>

theorem reliableExit_iff:
  "reliableExit distance accuracy radius threshold =
     (distance \<ge> threshold \<or> (accuracy \<le> 50 \<and> distance \<ge> radius + max 25 (accuracy / 2)))"
  by (auto simp: reliableExit_def ACCURACY_PASS_M_def)

text \<open>
  C8. On the six radii of the lookup table \<open>getSafeOutThreshold\<close> returns the tabulated value;
  on every other radius \<open>r\<close> (in particular every other positive one) it returns \<open>1.25 * r\<close>.
\<close>

theorem getSafeOutThreshold_table:
  "getSafeOutThreshold 50 = 90 \<and> getSafeOutThreshold 100 = 150 \<and>
   getSafeOutThreshold 200 = 260 \<and> getSafeOutThreshold 300 = 380 \<and>
   getSafeOutThreshold 400 = 500 \<and> getSafeOutThreshold 500 = 625 \<and>
   (\<forall>r. 0 < r \<and> r \<notin> {50, 100, 200, 300, 400, 500} \<longrightarrow> getSafeOutThreshold r = 1.25 * r)"
  by (simp add: getSafeOutThreshold_def SAFE_OUT_TABLE_def js_or_def)

theorem getSafeOutThreshold_table_witness:
  "getSafeOutThreshold 50 = 90 \<and> getSafeOutThreshold 500 = 625 \<and>
   (0::rat) < 80 \<and> (80::rat) \<notin> {50, 100, 200, 300, 400, 500} \<and> getSafeOutThreshold 80 = 100"
proof -
  have off: "0 < r \<and> r \<notin> {50, 100, 200, 300, 400, 500} \<Longrightarrow> getSafeOutThreshold r = 1.25 * r" for r
    using getSafeOutThreshold_table by blast
  have "getSafeOutThreshold 80 = 1.25 * 80"
    by (rule off) simp
  then have "getSafeOutThreshold 80 = 100"
    by simp
  moreover have "getSafeOutThreshold 50 = 90" and "getSafeOutThreshold 500 = 625"
    using getSafeOutThreshold_table by blast+
  ultimately show ?thesis
    by simp
qed

subsection \<open>The Exit Classifier\<close>

lemma is_digit_char_of: "k < 10 \<Longrightarrow> is_digit (char_of (48 + k :: nat))"
  by (simp add: is_digit_def)

lemma is_space_char_of: "k < 10 \<Longrightarrow> \<not> is_space (char_of (48 + k :: nat))"
  by (simp add: is_space_def)

lemma char_of_48: "char_of (48 :: nat) = CHR ''0''"
  by (rule of_char_eqI [where ?'a = nat]) simp

lemma String_nat_digit: "n < 10 \<Longrightarrow> String_nat n = [char_of (48 + n)]"
  by (subst String_nat.simps) simp

lemma String_nat_two_digits:
  assumes "10 \<le> n" and "n < 100"
  shows "String_nat n = [char_of (48 + n div 10), char_of (48 + n mod 10)]"
proof -
  from assms have "n div 10 < 10" by simp
  then have "String_nat (n div 10) = [char_of (48 + n div 10)]"
    by (rule String_nat_digit)
  with assms(1) show ?thesis
    by (subst String_nat.simps) simp
qed

lemma padStart2_String_nat:
  assumes "n < 100"
  shows "padStart2 (String_nat n) = [char_of (48 + n div 10), char_of (48 + n mod 10)]"
proof (cases "n < 10")
  case True
  then show ?thesis by (simp add: padStart2_def String_nat_digit char_of_48)
next
  case False
  with assms show ?thesis by (simp add: padStart2_def String_nat_two_digits)
qed

lemma not_is_digit_colon: "\<not> is_digit (CHR '':'')"
  by (simp add: is_digit_def)

lemma not_is_space_colon: "\<not> is_space (CHR '':'')"
  by (simp add: is_space_def)

lemma parseInt_two_digits:
  "a < 10 \<Longrightarrow> b < 10 \<Longrightarrow> parseInt [char_of (48 + a :: nat), char_of (48 + b :: nat)] = 10 * a + b"
  by (simp add: parseInt_def)

lemma parseShiftEnd_digits:
  assumes "a < 10" "b < 10" "c < 10" "e < 10"
  shows "parseShiftEnd [char_of (48 + a :: nat), char_of (48 + b :: nat), CHR '':'',
                        char_of (48 + c :: nat), char_of (48 + e :: nat)]
           = (if 10 * a + b \<le> 23 \<and> 10 * c + e \<le> 59 then Some (10 * a + b, 10 * c + e) else None)"
proof -
  let ?s = "[char_of (48 + a), char_of (48 + b), CHR '':'', char_of (48 + c), char_of (48 + e)]"
  have t: "trim ?s = ?s"
    using assms by (simp add: trim_def is_space_char_of)
  have l: "toLowerCase ?s = ?s"
    using assms by (simp add: toLowerCase_def)
  have m: "match_24h ?s = Some ([char_of (48 + a), char_of (48 + b)], [char_of (48 + c), char_of (48 + e)])"
    using assms by (simp add: match_24h_def is_digit_char_of not_is_digit_colon)
  show ?thesis
    using assms by (simp add: parseShiftEnd_def Let_def t l m parseInt_two_digits)
qed

lemma parseShiftEnd_normalizeShiftEnd:
  assumes "h \<le> 23" and "m \<le> 59"
  shows "parseShiftEnd (normalizeShiftEnd (h, m)) = Some (h, m)"
proof -
  have "normalizeShiftEnd (h, m)
          = [char_of (48 + h div 10), char_of (48 + h mod 10), CHR '':'',
             char_of (48 + m div 10), char_of (48 + m mod 10)]"
    using assms by (simp add: normalizeShiftEnd_def padStart2_String_nat)
  moreover have "h div 10 < 10" "m div 10 < 10"
    using assms by simp_all
  ultimately show ?thesis
    using assms by (simp add: parseShiftEnd_digits)
qed

lemma parseShiftEnd_range:
  assumes "parseShiftEnd s = Some (h, m)"
  shows "h \<le> 23 \<and> m \<le> 59"
  using assms
  by (auto simp: parseShiftEnd_def Let_def split: option.splits if_splits prod.splits)

lemma checkLastHourWindow_normalized:
  assumes "h \<le> 23" and "m \<le> 59"
  shows "checkLastHourWindow tz now t0 (normalizeShiftEnd (h, m))
           = ((int h * 60 + int m) * 60000 - 3600000 \<le> (now + tz) mod 86400000 \<and>
              (now + tz) mod 86400000 \<le> (int h * 60 + int m) * 60000)"
  by (auto simp: checkLastHourWindow_def parseShiftEnd_normalizeShiftEnd [OF assms] setHours_def
      AUTO_WINDOW_MINUTES_def Let_def)

lemma parseShiftEnd_Nil: "parseShiftEnd [] = None"
  by (simp add: parseShiftEnd_def trim_def toLowerCase_def match_24h_def match_12h_def)

lemma trim_Nil: "trim [] = []"
  by (simp add: trim_def)

lemma window_gate_parsed:
  assumes "single (filter (\<lambda>w. worker_id w = p_worker_id payload) (workers d)) = Some w"
    and "shift_end w = Some raw"
    and "parseShiftEnd (trim raw) = Some (h, m)"
  shows "window_gate tz now payload ce distance threshold d
           = (if (int h * 60 + int m) * 60000 - 3600000 \<le> (now + tz) mod 86400000 \<and>
                 (now + tz) mod 86400000 \<le> (int h * 60 + int m) * 60000
              then None
              else Some ((reply 200 ''outside_window'')
                     \<lparr>r_distance := Some distance, r_threshold := Some threshold\<rparr>))"
proof -
  have "trim raw \<noteq> []"
    using assms(3) parseShiftEnd_Nil by auto
  moreover from this have "raw \<noteq> []"
    using trim_Nil by auto
  moreover have "h \<le> 23" "m \<le> 59"
    using parseShiftEnd_range [OF assms(3)] by simp_all
  ultimately show ?thesis
    using assms by (simp add: window_gate_def Let_def checkLastHourWindow_normalized)
qed

lemma workers_insert_event [simp]: "workers (insert_event e d) = workers d"
  by (simp add: insert_event_def)

lemma geofence_events_insert_event:
  "geofence_events (insert_event e d) = geofence_events d @ [e\<lparr>ev_id := fresh_id (geofence_events d)\<rparr>]"
  by (simp add: insert_event_def)

text \<open>
  C6. For a sample of an open regular session on a job with valid coordinates, a non-zero
  radius and geofencing not disabled, whose worker's \<open>shift_end\<close> parses to \<open>h:m\<close>: with
  \<open>(now + tz) mod 86400000\<close> the local time of day in milliseconds, the handler runs the exit
  test (and answers \<open>exit_detected\<close> or \<open>inside_fence\<close> by it) exactly when that time lies
  between \<open>h:m\<close> minus 60 minutes and \<open>h:m\<close>, both included; otherwise it answers
  \<open>outside_window\<close> and the only row it writes is the \<^verbatim>\<open>location_fix\<close>.
\<close>

theorem window_gate_regular_session:
  assumes entry: "single (filter (\<lambda>c. ce_id c = p_clock_entry_id payload \<and>
                                       ce_worker_id c = p_worker_id payload \<and>
                                       clock_out c = None) (clock_entries d)) = Some ce"
    and regular: "\<not> is_overtime ce"
    and job: "find (\<lambda>j. job_id j = ce_job_id ce) (jobs d) = Some job"
    and coords: "job_latitude job = Some lat" "lat \<noteq> 0" "job_longitude job = Some lon" "lon \<noteq> 0"
    and fence: "geofence_radius job = Some radius" "radius \<noteq> 0"
    and enabled: "geofence_enabled job \<noteq> Some False"
    and worker: "single (filter (\<lambda>w. worker_id w = p_worker_id payload) (workers d)) = Some w"
    and shift: "shift_end w = Some raw" "parseShiftEnd (trim raw) = Some (h, m)"
  shows "r_status (snd (track_location F tz now calculateDistance payload d))
           = Some (if (int h * 60 + int m) * 60000 - 3600000 \<le> (now + tz) mod 86400000 \<and>
                      (now + tz) mod 86400000 \<le> (int h * 60 + int m) * 60000
                   then (if reliableExit (calculateDistance (p_latitude payload) (p_longitude payload) lat lon)
                              (p_accuracy payload) radius (getSafeOutThreshold radius)
                         then ''exit_detected'' else ''inside_fence'')
                   else ''outside_window'') \<and>
         (r_status (snd (track_location F tz now calculateDistance payload d)) = Some ''outside_window''
            \<longrightarrow> geofence_events (fst (track_location F tz now calculateDistance payload d))
                  = geofence_events d @
                    [(location_event F payload ce ''location_fix''
                        (calculateDistance (p_latitude payload) (p_longitude payload) lat lon)
                        radius (getSafeOutThreshold radius))
                       \<lparr>ev_id := fresh_id (geofence_events d)\<rparr>])"
  using entry regular job coords fence enabled
  by (simp add: track_location_def Let_def falsy_num_def window_gate_parsed [OF _ shift] worker
      geofence_events_insert_event reply_def)

lemma parseShiftEnd_17_00: "parseShiftEnd (trim ''17:00'') = Some (17, 0)"
  by (simp add: parseShiftEnd_def match_24h_def trim_def toLowerCase_def is_space_def is_digit_def
      parseInt_def)

text \<open>
  The theorem for \<open>shift_end = 17:00\<close>: at local time 15:30 the answer is
  \<open>outside_window\<close> and only a \<^verbatim>\<open>location_fix\<close> row is written; at 16:30 the exit test decides.
\<close>

theorem window_gate_regular_session_witness:
  "r_status (snd (track_location plain_text 0 55800000 far_away sample site_store))
     = Some ''outside_window'' \<and>
   map ev_event_type (geofence_events (fst (track_location plain_text 0 55800000 far_away sample site_store)))
     = [''location_fix''] \<and>
   r_status (snd (track_location plain_text 0 59400000 far_away sample site_store))
     = Some ''exit_detected'' \<and>
   r_status (snd (track_location plain_text 0 59400000 close_by sample site_store))
     = Some ''inside_fence''"
proof -
  note window = window_gate_regular_session
    [where payload = sample and d = site_store and ce = open_session and lat = 51 and lon = 1
       and radius = 100 and raw = "''17:00''" and h = 17 and m = 0 and F = plain_text and tz = 0
       and job = "\<lparr>job_id = ''j1'', job_latitude = Some 51, job_longitude = Some 1,
                   geofence_radius = Some 100, geofence_enabled = Some True\<rparr>"
       and w = "\<lparr>worker_id = ''w1'', shift_end = Some ''17:00''\<rparr>",
     OF _ _ _ _ _ _ _ _ _ _ _ _ parseShiftEnd_17_00]
  have early: "r_status (snd (track_location plain_text 0 55800000 far_away sample site_store))
                 = Some ''outside_window'' \<and>
               map ev_event_type
                 (geofence_events (fst (track_location plain_text 0 55800000 far_away sample site_store)))
                 = [''location_fix'']"
    using window [where now = 55800000 and calculateDistance = far_away]
    by (simp add: sample_def site_store_def open_session_def single_def location_event_def)
  have late: "r_status (snd (track_location plain_text 0 59400000 far_away sample site_store))
                = Some ''exit_detected''"
    using window [where now = 59400000 and calculateDistance = far_away]
    by (simp add: sample_def site_store_def open_session_def single_def far_away_def
        reliableExit_def getSafeOutThreshold_def SAFE_OUT_TABLE_def js_or_def)
  have near: "r_status (snd (track_location plain_text 0 59400000 close_by sample site_store))
                = Some ''inside_fence''"
    using window [where now = 59400000 and calculateDistance = close_by]
    by (simp add: sample_def site_store_def open_session_def single_def close_by_def
        reliableExit_def getSafeOutThreshold_def SAFE_OUT_TABLE_def js_or_def ACCURACY_PASS_M_def)
  from early late near show ?thesis by simp
qed

lemma r_status_reply [simp]: "r_status (reply code st) = Some st"
  by (simp add: reply_def)

lemma r_status_reply_error [simp]: "r_status (reply_error code msg) = None"
  by (simp add: reply_error_def)

lemma window_gate_status:
  "window_gate tz now payload ce distance threshold d = Some r \<Longrightarrow> r_status r \<noteq> Some ''exit_detected''"
  by (auto simp: window_gate_def Let_def split: option.splits if_splits)

text \<open>
  C10. A fix at or inside the boundary is never an exit: for a positive radius and a distance
  not above it, \<open>reliableExit\<close> with the threshold of \<open>getSafeOutThreshold\<close> is false for
  every accuracy. Hence, whatever the state and the sample, when the handler answers
  \<open>exit_detected\<close> the session and its job were found and, for a positive radius, the computed
  distance is above the radius; and when it answers anything else it writes no
  \<^verbatim>\<open>exit_detected\<close> row.
\<close>

theorem no_exit_inside_fence:
  "(0 < radius \<and> distance \<le> radius
      \<longrightarrow> \<not> reliableExit distance accuracy radius (getSafeOutThreshold radius)) \<and>
   (r_status (snd (track_location F tz now calculateDistance payload d)) = Some ''exit_detected''
      \<longrightarrow> (\<exists>ce job.
             single (filter (\<lambda>c. ce_id c = p_clock_entry_id payload \<and>
                                  ce_worker_id c = p_worker_id payload \<and>
                                  clock_out c = None) (clock_entries d)) = Some ce \<and>
             find (\<lambda>j. job_id j = ce_job_id ce) (jobs d) = Some job \<and>
             (0 < the (geofence_radius job)
                \<longrightarrow> the (geofence_radius job)
                      < calculateDistance (p_latitude payload) (p_longitude payload)
                          (the (job_latitude job)) (the (job_longitude job))))) \<and>
   (r_status (snd (track_location F tz now calculateDistance payload d)) \<noteq> Some ''exit_detected''
      \<longrightarrow> filter (\<lambda>e. ev_event_type e = ''exit_detected'')
             (geofence_events (fst (track_location F tz now calculateDistance payload d)))
           = filter (\<lambda>e. ev_event_type e = ''exit_detected'') (geofence_events d))"
proof (intro conjI impI)
  assume "0 < radius \<and> distance \<le> radius"
  then show "\<not> reliableExit distance accuracy radius (getSafeOutThreshold radius)"
    by (simp add: reliableExit_inside_False)
next
  assume ex: "r_status (snd (track_location F tz now calculateDistance payload d)) = Some ''exit_detected''"
  then show "\<exists>ce job.
             single (filter (\<lambda>c. ce_id c = p_clock_entry_id payload \<and>
                                  ce_worker_id c = p_worker_id payload \<and>
                                  clock_out c = None) (clock_entries d)) = Some ce \<and>
             find (\<lambda>j. job_id j = ce_job_id ce) (jobs d) = Some job \<and>
             (0 < the (geofence_radius job)
                \<longrightarrow> the (geofence_radius job)
                      < calculateDistance (p_latitude payload) (p_longitude payload)
                          (the (job_latitude job)) (the (job_longitude job)))"
    using reliableExit_inside_False
    by (auto simp: track_location_def Let_def not_le [symmetric] split: option.splits if_splits
        dest: window_gate_status)
next
  assume "r_status (snd (track_location F tz now calculateDistance payload d)) \<noteq> Some ''exit_detected''"
  then show "filter (\<lambda>e. ev_event_type e = ''exit_detected'')
             (geofence_events (fst (track_location F tz now calculateDistance payload d)))
           = filter (\<lambda>e. ev_event_type e = ''exit_detected'') (geofence_events d)"
    by (auto simp: track_location_def Let_def geofence_events_insert_event location_event_def
        split: option.splits if_splits)
qed

text \<open>
  The theorem on a sample 40 m from the centre of a 100 m fence, inside the last-hour window.
\<close>

theorem no_exit_inside_fence_witness:
  "\<not> reliableExit 40 10 100 (getSafeOutThreshold 100) \<and>
   r_status (snd (track_location plain_text 0 59400000 close_by sample site_store))
     \<noteq> Some ''exit_detected'' \<and>
   filter (\<lambda>e. ev_event_type e = ''exit_detected'')
     (geofence_events (fst (track_location plain_text 0 59400000 close_by sample site_store))) = []"
proof -
  note t = no_exit_inside_fence [of 100 40 10 plain_text 0 59400000 close_by sample site_store]
  have r: "\<not> reliableExit 40 10 100 (getSafeOutThreshold 100)"
    using t by simp
  have s: "r_status (snd (track_location plain_text 0 59400000 close_by sample site_store))
             \<noteq> Some ''exit_detected''"
  proof
    assume "r_status (snd (track_location plain_text 0 59400000 close_by sample site_store))
              = Some ''exit_detected''"
    with t show False
      by (simp add: sample_def site_store_def open_session_def single_def close_by_def)
  qed
  with t have "filter (\<lambda>e. ev_event_type e = ''exit_detected'')
     (geofence_events (fst (track_location plain_text 0 59400000 close_by sample site_store)))
       = filter (\<lambda>e. ev_event_type e = ''exit_detected'') (geofence_events site_store)"
    by blast
  with r s show ?thesis
    by (simp add: site_store_def)
qed

subsection \<open>The Grace Resolver\<close>

lemmas grace_defs = check_grace_expiry_def purge_stale_exits_def expired_exits_def process_exit_def finalize_exit_def geofence_clock_out_def
  exit_confirmed_event_def geofence_notification_def insert_event_def delete_event_def insert_notification_def
  existingEvents_def recentFixes_def back_inside_def re_entry_event_def single_def fresh_id_def
  AUTO_DELAY_MS_def GRACE_MINUTES_def RACE_BUFFER_SEC_def ACCURACY_PASS_M_def isoDate_def js_or_def

lemmas ex_defs = plain_text_def open_session_def exit_row_def inside_fix_def earlier_re_entry_def store_def

lemma clock_entries_insert_event [simp]: "clock_entries (insert_event e d) = clock_entries d"
  by (simp add: insert_event_def)

lemma clock_entries_delete_event [simp]: "clock_entries (delete_event i d) = clock_entries d"
  by (simp add: delete_event_def)

lemma clock_entries_insert_notification [simp]:
  "clock_entries (insert_notification n d) = clock_entries d"
  by (simp add: insert_notification_def)

lemma notifications_insert_event [simp]: "notifications (insert_event e d) = notifications d"
  by (simp add: insert_event_def)

lemma notifications_delete_event [simp]: "notifications (delete_event i d) = notifications d"
  by (simp add: delete_event_def)

lemma single_Some_iff: "single rows = Some r \<longleftrightarrow> rows = [r]"
  by (cases rows rule: list.exhaust; simp add: single_def split: list.splits)

lemma is_overtime_geofence_clock_out [simp]:
  "is_overtime (geofence_clock_out F exit clockEntry c) = is_overtime c"
  by (simp add: geofence_clock_out_def Let_def)

lemma geofence_clock_out_other:
  "ce_id c \<noteq> ev_clock_entry_id exit \<Longrightarrow> geofence_clock_out F exit clockEntry c = c"
  by (simp add: geofence_clock_out_def)

lemma filter_map_frame:
  assumes "\<And>x. x \<in> set xs \<Longrightarrow> P (g x) = P x"
    and "\<And>x. x \<in> set xs \<Longrightarrow> P x \<Longrightarrow> g x = x"
  shows "filter P (map g xs) = filter P xs"
  using assms by (induction xs) auto

lemma finalize_exit_overtime_frame:
  assumes "single (filter (\<lambda>c. ce_id c = ev_clock_entry_id exit) (clock_entries d)) = Some clockEntry"
    and "\<not> is_overtime clockEntry"
  shows "filter is_overtime (clock_entries (finalize_exit F now exit clockEntry d))
           = filter is_overtime (clock_entries d)"
proof -
  have only: "filter (\<lambda>c. ce_id c = ev_clock_entry_id exit) (clock_entries d) = [clockEntry]"
    using assms(1) by (simp add: single_Some_iff)
  have other: "ce_id c \<noteq> ev_clock_entry_id exit" if "c \<in> set (clock_entries d)" "is_overtime c" for c
  proof
    assume "ce_id c = ev_clock_entry_id exit"
    with that(1) have "c \<in> set (filter (\<lambda>c. ce_id c = ev_clock_entry_id exit) (clock_entries d))"
      by simp
    with only have "c = clockEntry" by simp
    with that(2) assms(2) show False by simp
  qed
  have "filter is_overtime (map (geofence_clock_out F exit clockEntry) (clock_entries d))
          = filter is_overtime (clock_entries d)"
    by (rule filter_map_frame) (simp_all add: other geofence_clock_out_other)
  then show ?thesis
    by (simp add: finalize_exit_def Let_def)
qed

lemma process_exit_overtime_frame:
  "filter is_overtime (clock_entries (process_exit F now exit d)) = filter is_overtime (clock_entries d)"
  by (simp add: process_exit_def Let_def finalize_exit_overtime_frame split: option.split)

lemma fold_process_exit_overtime_frame:
  "filter is_overtime (clock_entries (fold (process_exit F now) exits d))
     = filter is_overtime (clock_entries d)"
  by (induction exits arbitrary: d) (simp_all add: process_exit_overtime_frame)

text \<open>
  C9. The Grace Resolver never sets \<open>clock_out\<close> on an overtime session: the step of the
  loop for any \<^verbatim>\<open>exit_detected\<close> row, and so one whole invocation, leaves every row of
  \<^verbatim>\<open>clock_entries\<close> with \<open>is_overtime = true\<close> as it was (its \<open>clock_out\<close> included).
\<close>

theorem grace_resolver_leaves_overtime_sessions:
  "filter is_overtime (clock_entries (process_exit F now exit d))
     = filter is_overtime (clock_entries d) \<and>
   filter is_overtime (clock_entries (fst (check_grace_expiry F now d)))
     = filter is_overtime (clock_entries d)"
  by (simp add: check_grace_expiry_def Let_def process_exit_overtime_frame
      fold_process_exit_overtime_frame purge_stale_exits_def)

text \<open>
  C9 at a concrete state: the pending exit of an overtime session, past the grace delay, is
  reviewed and the session stays as it was.
\<close>

theorem grace_resolver_leaves_overtime_sessions_witness:
  "filter is_overtime
     (clock_entries (process_exit plain_text 7560000 exit_row (store [overtime_session] [exit_row])))
     = [overtime_session] \<and>
   filter is_overtime
     (clock_entries (fst (check_grace_expiry plain_text 7560000 (store [overtime_session] [exit_row]))))
     = [overtime_session]"
  using grace_resolver_leaves_overtime_sessions
    [of plain_text 7560000 exit_row "store [overtime_session] [exit_row]"]
  by (simp add: store_def overtime_session_def open_session_def)

lemma ev_id_le_foldr_max: "e \<in> set evs \<Longrightarrow> ev_id e \<le> foldr max (map ev_id evs) 0"
  by (induction evs) auto

lemma fresh_id_fresh: "e \<in> set evs \<Longrightarrow> fresh_id evs \<noteq> ev_id e"
  using ev_id_le_foldr_max [of e evs] by (simp add: fresh_id_def)

lemma ev_id_neq: "ev_id a \<noteq> ev_id b \<Longrightarrow> a \<noteq> b"
  by auto

lemma geofence_events_insert_then_delete:
  assumes "exit \<in> set (geofence_events d)"
  shows "geofence_events (delete_event (ev_id exit) (insert_event e d))
           = filter (\<lambda>x. ev_id x \<noteq> ev_id exit) (geofence_events d)
             @ [e\<lparr>ev_id := fresh_id (geofence_events d)\<rparr>]"
  using fresh_id_fresh [OF assms] by (simp add: delete_event_def insert_event_def)

text \<open>
  C5 (amended). When the sweep processes a pending \<^verbatim>\<open>exit_detected\<close> row of the table,
  the session has no \<^verbatim>\<open>re_entry\<close> or \<^verbatim>\<open>exit_confirmed\<close> row yet, and a later
  \<^verbatim>\<open>location_fix\<close> of the same session has \<open>distance_from_center \<le> job_radius\<close> and
  \<open>accuracy \<le> 50\<close>, then no session is changed and no notification is written, a
  \<^verbatim>\<open>re_entry\<close> row is appended, and the pending row is deleted.
\<close>

theorem re_entry_cancels_pending_exit:
  assumes "exit \<in> set (geofence_events d)"
    and "existingEvents (ev_clock_entry_id exit) d = []"
    and "fix \<in> set (geofence_events d)"
    and "ev_clock_entry_id fix = ev_clock_entry_id exit"
    and "ev_event_type fix = ''location_fix''"
    and "ev_timestamp exit < ev_timestamp fix"
    and "ev_distance_from_center fix \<le> ev_job_radius fix"
    and "ev_accuracy fix \<le> 50"
  shows "clock_entries (process_exit F now exit d) = clock_entries d \<and>
         notifications (process_exit F now exit d) = notifications d \<and>
         geofence_events (process_exit F now exit d)
           = filter (\<lambda>e. ev_id e \<noteq> ev_id exit) (geofence_events d)
             @ [(re_entry_event F now exit (find back_inside (recentFixes exit d)))
                  \<lparr>ev_id := fresh_id (geofence_events d)\<rparr>] \<and>
         ev_event_type (re_entry_event F now exit (find back_inside (recentFixes exit d))) = ''re_entry'' \<and>
         exit \<notin> set (geofence_events (process_exit F now exit d))"
proof -
  have "fix \<in> set (recentFixes exit d)"
    using assms(3-6) by (simp add: recentFixes_def)
  moreover have "back_inside fix"
    using assms(7,8) by (simp add: back_inside_def ACCURACY_PASS_M_def)
  ultimately have some: "recentFixes exit d \<noteq> [] \<and> list_ex back_inside (recentFixes exit d)"
    by (auto simp: list_ex_iff)
  have step: "process_exit F now exit d
          = delete_event (ev_id exit)
              (insert_event (re_entry_event F now exit (find back_inside (recentFixes exit d))) d)"
    using assms(2) some by (simp add: process_exit_def)
  have ev: "geofence_events (process_exit F now exit d)
           = filter (\<lambda>e. ev_id e \<noteq> ev_id exit) (geofence_events d)
             @ [(re_entry_event F now exit (find back_inside (recentFixes exit d)))
                  \<lparr>ev_id := fresh_id (geofence_events d)\<rparr>]"
    unfolding step by (rule geofence_events_insert_then_delete [OF assms(1)])
  have "ev_id ((re_entry_event F now exit (find back_inside (recentFixes exit d)))
                  \<lparr>ev_id := fresh_id (geofence_events d)\<rparr>) \<noteq> ev_id exit"
    using fresh_id_fresh [OF assms(1)] by simp
  then have "(re_entry_event F now exit (find back_inside (recentFixes exit d)))
                  \<lparr>ev_id := fresh_id (geofence_events d)\<rparr> \<noteq> exit"
    by (rule ev_id_neq)
  then have gone: "exit \<notin> set (geofence_events (process_exit F now exit d))"
    unfolding ev by auto
  show ?thesis
    using ev gone by (simp add: step re_entry_event_def)
qed

text \<open>
  The theorem at a concrete state: an open session, its pending exit and a later fix inside
  the fence.
\<close>

theorem re_entry_cancels_pending_exit_witness:
  "clock_entries (process_exit plain_text 7560000 exit_row (store [open_session] [exit_row, inside_fix]))
     = [open_session] \<and>
   map ev_event_type
     (geofence_events (process_exit plain_text 7560000 exit_row (store [open_session] [exit_row, inside_fix])))
     = [''location_fix'', ''re_entry'']"
  using re_entry_cancels_pending_exit
    [of exit_row "store [open_session] [exit_row, inside_fix]" inside_fix plain_text 7560000]
  by (simp add: ex_defs existingEvents_def)

text \<open>
  C5 as stated fails when the session already has a \<^verbatim>\<open>re_entry\<close> row (here from an earlier
  excursion): the first check of the loop deletes the pending row and writes nothing, although
  a later fix inside the fence exists.
\<close>

theorem re_entry_not_written_counterexample:
  "inside_fix \<in> set (recentFixes exit_row (store [open_session] [earlier_re_entry, exit_row, inside_fix])) \<and>
   ev_distance_from_center inside_fix \<le> ev_job_radius inside_fix \<and> ev_accuracy inside_fix \<le> 50 \<and>
   geofence_events (fst (check_grace_expiry plain_text 7560000
        (store [open_session] [earlier_re_entry, exit_row, inside_fix])))
     = [earlier_re_entry, inside_fix]"
  by (simp add: grace_defs ex_defs)

lemma the_only_exit_row:
  assumes "filter (\<lambda>e. ev_event_type e = ''exit_detected'') (geofence_events d) = [exit]"
    and "e \<in> set (geofence_events d)" and "ev_event_type e = ''exit_detected''"
  shows "e = exit"
proof -
  from assms(2,3) have "e \<in> set (filter (\<lambda>e. ev_event_type e = ''exit_detected'') (geofence_events d))"
    by simp
  then show ?thesis by (simp add: assms(1))
qed

lemma purge_stale_exits_none:
  assumes "filter (\<lambda>e. ev_event_type e = ''exit_detected'') (geofence_events d) = []"
  shows "purge_stale_exits t d = d"
proof -
  have "filter (\<lambda>e. \<not> (ev_event_type e = ''exit_detected'' \<and> ev_timestamp e < t)) (geofence_events d)
          = geofence_events d"
    using assms by (intro filter_True) (auto simp: filter_empty_conv)
  then show ?thesis by (simp add: purge_stale_exits_def)
qed

lemma expired_exits_none:
  assumes "filter (\<lambda>e. ev_event_type e = ''exit_detected'') (geofence_events d) = []"
  shows "expired_exits t u d = []"
  using assms by (auto simp: expired_exits_def filter_empty_conv)

lemma check_grace_expiry_no_exits:
  assumes "filter (\<lambda>e. ev_event_type e = ''exit_detected'') (geofence_events d) = []"
  shows "check_grace_expiry F now d = (d, NoPendingExits)"
  by (simp add: check_grace_expiry_def Let_def purge_stale_exits_none [OF assms]
      expired_exits_none [OF assms])

lemma purge_stale_exits_keeps:
  assumes "filter (\<lambda>e. ev_event_type e = ''exit_detected'') (geofence_events d) = [exit]"
    and "t < ev_timestamp exit"
  shows "purge_stale_exits t d = d"
proof -
  have "filter (\<lambda>e. \<not> (ev_event_type e = ''exit_detected'' \<and> ev_timestamp e < t)) (geofence_events d)
          = geofence_events d"
    using the_only_exit_row [OF assms(1)] assms(2) by (intro filter_True) force
  then show ?thesis by (simp add: purge_stale_exits_def)
qed

lemma expired_exits_only:
  assumes "filter (\<lambda>e. ev_event_type e = ''exit_detected'') (geofence_events d) = [exit]"
    and "ev_timestamp exit < t" and "u < ev_timestamp exit"
  shows "expired_exits t u d = [exit]"
proof -
  have "filter (\<lambda>e. ev_event_type e = ''exit_detected'' \<and> ev_timestamp e < t \<and> ev_timestamp e > u)
          (geofence_events d)
          = filter (\<lambda>e. ev_event_type e = ''exit_detected'') (geofence_events d)"
    using the_only_exit_row [OF assms(1)] assms(2,3) by (intro filter_cong) auto
  then show ?thesis by (simp add: expired_exits_def assms(1))
qed

lemma check_grace_expiry_single_candidate:
  assumes one: "filter (\<lambda>e. ev_event_type e = ''exit_detected'') (geofence_events d) = [exit]"
    and expired: "ev_timestamp exit < now - 300000"
    and recent: "now - 86400000 < ev_timestamp exit"
  shows "check_grace_expiry F now d = (process_exit F now exit d, Processed 1)"
proof -
  have "purge_stale_exits (now - 86400000) d = d"
    by (rule purge_stale_exits_keeps [OF one recent])
  moreover have "expired_exits (now - 300000) (now - 86400000) d = [exit]"
    by (rule expired_exits_only [OF one expired recent])
  ultimately show ?thesis
    by (simp add: check_grace_expiry_def Let_def AUTO_DELAY_MS_def GRACE_MINUTES_def
        RACE_BUFFER_SEC_def)
qed

lemma process_exit_finalizes:
  assumes "existingEvents (ev_clock_entry_id exit) d = []"
    and "\<not> list_ex back_inside (recentFixes exit d)"
    and "filter (\<lambda>c. ce_id c = ev_clock_entry_id exit) (clock_entries d) = [c0]"
    and "\<not> is_overtime c0"
    and "clock_out c0 = None \<or> auto_clocked_out c0"
  shows "process_exit F now exit d = finalize_exit F now exit c0 d"
  using assms by (auto simp: process_exit_def single_def)

lemma finalize_exit_no_exit_rows:
  assumes "filter (\<lambda>e. ev_event_type e = ''exit_detected'') (geofence_events d) = [exit]"
  shows "filter (\<lambda>e. ev_event_type e = ''exit_detected'')
           (geofence_events (finalize_exit F now exit c0 d)) = []"
proof -
  note only = the_only_exit_row [OF assms]
  show ?thesis
    by (auto simp: finalize_exit_def Let_def insert_event_def delete_event_def
        insert_notification_def exit_confirmed_event_def filter_empty_conv dest: only)
qed

lemma ce_id_geofence_clock_out [simp]:
  "ce_id (geofence_clock_out F exit clockEntry c) = ce_id c"
  by (simp add: geofence_clock_out_def Let_def)

lemma clock_entries_finalize_exit:
  "clock_entries (finalize_exit F now exit c0 d) = map (geofence_clock_out F exit c0) (clock_entries d)"
  by (simp add: finalize_exit_def Let_def)

lemma notifications_finalize_exit:
  "notifications (finalize_exit F now exit c0 d) = notifications d @ [geofence_notification F now exit]"
  by (simp add: finalize_exit_def Let_def insert_notification_def)

lemma filter_session_geofence_clock_out:
  "filter (\<lambda>c. ce_id c = i) (map (geofence_clock_out F exit c0) cs)
     = map (geofence_clock_out F exit c0) (filter (\<lambda>c. ce_id c = i) cs)"
  by (induction cs) simp_all

lemma filter_others_geofence_clock_out:
  "filter (\<lambda>c. ce_id c \<noteq> i) (map (geofence_clock_out F exit c0) cs)
     = map (geofence_clock_out F exit c0) (filter (\<lambda>c. ce_id c \<noteq> i) cs)"
  by (induction cs) simp_all

text \<open>
  C4 (amended). Let the table hold one \<^verbatim>\<open>exit_detected\<close> row, past the grace delay and
  younger than a day at the first invocation, of an open regular session that has no
  \<^verbatim>\<open>re_entry\<close> row, no \<^verbatim>\<open>exit_confirmed\<close> row and no later fix inside the fence. Two
  invocations in a row, at any instants \<open>now1\<close> and \<open>now2\<close>, set the session's \<open>clock_out\<close>
  once (in the first), insert exactly one notification, and the second invocation returns the
  state it was given (\<open>no_pending_exits\<close>).
\<close>

theorem grace_resolver_twice:
  assumes one: "filter (\<lambda>e. ev_event_type e = ''exit_detected'') (geofence_events d) = [exit]"
    and expired: "ev_timestamp exit < now1 - 300000"
    and recent: "now1 - 86400000 < ev_timestamp exit"
    and unhandled: "existingEvents (ev_clock_entry_id exit) d = []"
    and away: "\<not> list_ex back_inside (recentFixes exit d)"
    and session: "filter (\<lambda>c. ce_id c = ev_clock_entry_id exit) (clock_entries d) = [c0]"
    and regular: "\<not> is_overtime c0"
    and still_open: "clock_out c0 = None"
  shows "check_grace_expiry F now2 (fst (check_grace_expiry F now1 d))
           = (fst (check_grace_expiry F now1 d), NoPendingExits) \<and>
         notifications (fst (check_grace_expiry F now2 (fst (check_grace_expiry F now1 d))))
           = notifications d @ [geofence_notification F now1 exit] \<and>
         map clock_out (filter (\<lambda>c. ce_id c = ev_clock_entry_id exit) (clock_entries d)) = [None] \<and>
         map clock_out (filter (\<lambda>c. ce_id c = ev_clock_entry_id exit)
            (clock_entries (fst (check_grace_expiry F now1 d)))) = [Some (ev_timestamp exit)] \<and>
         filter (\<lambda>c. ce_id c \<noteq> ev_clock_entry_id exit) (clock_entries (fst (check_grace_expiry F now1 d)))
           = filter (\<lambda>c. ce_id c \<noteq> ev_clock_entry_id exit) (clock_entries d)"
proof -
  let ?d1 = "finalize_exit F now1 exit c0 d"
  have run1: "check_grace_expiry F now1 d = (?d1, Processed 1)"
    using check_grace_expiry_single_candidate [OF one expired recent]
      process_exit_finalizes [OF unhandled away session regular] still_open by simp
  have run2: "check_grace_expiry F now2 ?d1 = (?d1, NoPendingExits)"
    by (rule check_grace_expiry_no_exits) (rule finalize_exit_no_exit_rows [OF one])
  have "c0 \<in> set (filter (\<lambda>c. ce_id c = ev_clock_entry_id exit) (clock_entries d))"
    by (simp add: session)
  then have id0: "ce_id c0 = ev_clock_entry_id exit"
    by simp
  have closed: "map clock_out (filter (\<lambda>c. ce_id c = ev_clock_entry_id exit) (clock_entries ?d1))
                  = [Some (ev_timestamp exit)]"
    by (simp add: clock_entries_finalize_exit filter_session_geofence_clock_out session)
       (simp add: geofence_clock_out_def Let_def id0 still_open)
  have "map (geofence_clock_out F exit c0) (filter (\<lambda>c. ce_id c \<noteq> ev_clock_entry_id exit) (clock_entries d))
          = filter (\<lambda>c. ce_id c \<noteq> ev_clock_entry_id exit) (clock_entries d)"
    by (rule map_idI) (simp add: geofence_clock_out_other)
  then have others: "filter (\<lambda>c. ce_id c \<noteq> ev_clock_entry_id exit) (clock_entries ?d1)
                       = filter (\<lambda>c. ce_id c \<noteq> ev_clock_entry_id exit) (clock_entries d)"
    by (simp add: clock_entries_finalize_exit filter_others_geofence_clock_out)
  show ?thesis
    using closed others by (simp add: run1 run2 notifications_finalize_exit session still_open)
qed

text \<open>
  The theorem at a concrete state: the open session and its exit row, swept six and eight
  minutes after the exit.
\<close>

theorem grace_resolver_twice_witness:
  "check_grace_expiry plain_text 7680000
      (fst (check_grace_expiry plain_text 7560000 (store [open_session] [exit_row])))
     = (fst (check_grace_expiry plain_text 7560000 (store [open_session] [exit_row])), NoPendingExits) \<and>
   notifications (fst (check_grace_expiry plain_text 7680000
      (fst (check_grace_expiry plain_text 7560000 (store [open_session] [exit_row])))))
     = notifications (store [open_session] [exit_row]) @ [geofence_notification plain_text 7560000 exit_row] \<and>
   map clock_out (filter (\<lambda>c. ce_id c = ev_clock_entry_id exit_row)
      (clock_entries (store [open_session] [exit_row]))) = [None] \<and>
   map clock_out (filter (\<lambda>c. ce_id c = ev_clock_entry_id exit_row)
      (clock_entries (fst (check_grace_expiry plain_text 7560000 (store [open_session] [exit_row])))))
     = [Some (ev_timestamp exit_row)] \<and>
   filter (\<lambda>c. ce_id c \<noteq> ev_clock_entry_id exit_row)
      (clock_entries (fst (check_grace_expiry plain_text 7560000 (store [open_session] [exit_row]))))
     = filter (\<lambda>c. ce_id c \<noteq> ev_clock_entry_id exit_row) (clock_entries (store [open_session] [exit_row]))"
  by (rule grace_resolver_twice [where ?c0.0 = open_session])
     (simp_all add: ex_defs existingEvents_def recentFixes_def)

text \<open>
  C4 as stated fails when the session of the one pending row already has a \<^verbatim>\<open>re_entry\<close> row
  (here from an earlier excursion): the first invocation deletes the pending row, and after
  both invocations the session is still open and no notification has been inserted.
\<close>

theorem grace_resolver_twice_counterexample:
  "filter (\<lambda>e. ev_event_type e = ''exit_detected'')
     (geofence_events (store [open_session] [earlier_re_entry, exit_row])) = [exit_row] \<and>
   ev_resolved_at exit_row = None \<and>
   map clock_out (clock_entries (fst (check_grace_expiry plain_text 7560000
       (store [open_session] [earlier_re_entry, exit_row])))) = [None] \<and>
   notifications (fst (check_grace_expiry plain_text 7560000
       (store [open_session] [earlier_re_entry, exit_row]))) = [] \<and>
   map clock_out (clock_entries (fst (check_grace_expiry plain_text 7680000
       (fst (check_grace_expiry plain_text 7560000
          (store [open_session] [earlier_re_entry, exit_row])))))) = [None] \<and>
   notifications (fst (check_grace_expiry plain_text 7680000
       (fst (check_grace_expiry plain_text 7560000
          (store [open_session] [earlier_re_entry, exit_row]))))) = []"
  by (simp add: grace_defs ex_defs)

text \<open>
  The row the Grace Resolver finalizes: for a pending exit of an open regular session with no
  \<^verbatim>\<open>re_entry\<close>, no \<^verbatim>\<open>exit_confirmed\<close> and no later fix inside the fence, the session's
  \<open>clock_out\<close> becomes the timestamp of the exit, \<open>total_hours\<close> the hours from \<open>clock_in\<close> to
  it, and \<open>auto_clocked_out\<close> true.
\<close>

theorem grace_finalize_sets_exit_time:
  assumes unhandled: "existingEvents (ev_clock_entry_id exit) d = []"
    and away: "\<not> list_ex back_inside (recentFixes exit d)"
    and session: "filter (\<lambda>c. ce_id c = ev_clock_entry_id exit) (clock_entries d) = [c0]"
    and regular: "\<not> is_overtime c0"
    and still_open: "clock_out c0 = None"
  shows "map (\<lambda>c. (clock_out c, total_hours c, auto_clocked_out c, auto_clockout_type c))
           (filter (\<lambda>c. ce_id c = ev_clock_entry_id exit) (clock_entries (process_exit F now exit d)))
         = [(Some (ev_timestamp exit), Some (of_int (ev_timestamp exit - clock_in c0) / 3600000),
             True, Some ''geofence'')]"
proof -
  have "c0 \<in> set (filter (\<lambda>c. ce_id c = ev_clock_entry_id exit) (clock_entries d))"
    by (simp add: session)
  then have id0: "ce_id c0 = ev_clock_entry_id exit"
    by simp
  have "process_exit F now exit d = finalize_exit F now exit c0 d"
    using process_exit_finalizes [OF unhandled away session regular] still_open by simp
  then show ?thesis
    by (simp add: clock_entries_finalize_exit filter_session_geofence_clock_out session)
       (simp add: geofence_clock_out_def Let_def id0 still_open)
qed

text \<open>
  The theorem on the session with the exit two hours after the clock-in.
\<close>

theorem grace_finalize_sets_exit_time_witness:
  "map (\<lambda>c. (clock_out c, total_hours c, auto_clocked_out c, auto_clockout_type c))
     (filter (\<lambda>c. ce_id c = ev_clock_entry_id exit_row)
        (clock_entries (process_exit plain_text 7560000 exit_row (store [open_session] [exit_row]))))
     = [(Some 7200000, Some 2, True, Some ''geofence'')]"
  using grace_finalize_sets_exit_time
    [of exit_row "store [open_session] [exit_row]" open_session plain_text 7560000]
  by (simp add: ex_defs existingEvents_def recentFixes_def)

text \<open>
  C3 on the session clocked in at \<open>T0 = 0\<close> with an exit at \<open>T1 = 7200000\<close>, swept six
  minutes later: \<open>clock_out\<close> is \<open>T1\<close>, \<open>total_hours\<close> is \<open>(T1 - T0) / 3600000 = 2\<close> and
  \<open>auto_clocked_out\<close> is true, but the \<open>auto_clockout_type\<close> written is \<^verbatim>\<open>geofence\<close>, where
  the overtime sweeps write \<^verbatim>\<open>geofence_based\<close> for a clock-out caused by a geofence exit.
\<close>

theorem grace_resolver_writes_type_geofence:
  "map (\<lambda>c. (clock_out c, total_hours c, auto_clocked_out c, auto_clockout_type c))
     (clock_entries (fst (check_grace_expiry plain_text 7560000 (store [open_session] [exit_row]))))
     = [(Some 7200000, Some 2, True, Some ''geofence'')]"
  by (simp add: grace_defs ex_defs)

subsection \<open>The Overtime Monitor\<close>

lemmas ot_defs = check_ot_autoclockout_def ot_check_entry_def autoClockOut_def resolve_exit_events_def
  unresolved_exits_def earliest_timestamp_def insert_notification_def MAX_OT_HOURS_def
  GRACE_PERIOD_MINUTES_def

lemmas ot_ex_defs = overtime_session_def closed_overtime_session_def open_session_def store_def
  plain_text_def

text \<open>
  C1 on a session that was clocked out by hand after the sweep had selected it: the update of
  \<open>autoClockOut\<close> is keyed on the \<open>id\<close> alone, not on \<^verbatim>\<open>clock_out IS NULL\<close>, and
  overwrites the \<open>clock_out\<close> and \<open>total_hours\<close> already set.
\<close>

theorem autoClockOut_overwrites_closed_session:
  "map (\<lambda>c. (clock_out c, total_hours c)) (clock_entries (store [closed_overtime_session] []))
     = [(Some 10800500, Some (21601 / 7200))] \<and>
   map (\<lambda>c. (clock_out c, total_hours c))
     (clock_entries (autoClockOut plain_text 10801000 overtime_session
        ''Maximum 3-hour overtime limit reached. If you worked longer, please request a time amendment.''
        (store [closed_overtime_session] [])))
     = [(Some 10801000, Some (10801 / 3600))]"
  by (simp add: ot_defs ot_ex_defs)

text \<open>
  C2 on an overtime session found open 4.5 hours after its clock-in, with no exit event:
  \<^verbatim>\<open>check-ot-autoclockout\<close> records \<open>total_hours = 4.5\<close>, not 3.
\<close>

theorem check_ot_autoclockout_records_uncapped_hours:
  "map (\<lambda>c. (clock_out c, total_hours c))
     (clock_entries (fst (check_ot_autoclockout plain_text 16200000 (\<lambda>i. 16200000)
        (store [overtime_session] []))))
     = [(Some 16200000, Some (9 / 2))]"
  by (simp add: ot_defs ot_ex_defs)

lemma total_hours_autoClockOutOT:
  "map total_hours (filter (\<lambda>c. ce_id c = ce_id ot)
       (clock_entries (autoClockOutOT F now ot date reason forcedHours d)))
     = map (\<lambda>c. Some (min 3 (case forcedHours of Some h \<Rightarrow> h
                                | None \<Rightarrow> max 0 (of_int (now - clock_in ot) / 3600000))))
         (filter (\<lambda>c. ce_id c = ce_id ot) (clock_entries d))"
proof -
  have "clock_entries (autoClockOutOT F now ot date reason forcedHours d)
          = map (\<lambda>c. if ce_id c = ce_id ot
                       then c\<lparr>clock_out := Some now,
                              auto_clocked_out := True,
                              auto_clockout_type :=
                                Some (if js_includes reason ''site'' then ''geofence_based''
                                      else ''time_based''),
                              total_hours := Some (min 3 (case forcedHours of Some h \<Rightarrow> h
                                | None \<Rightarrow> max 0 (of_int (now - clock_in ot) / 3600000))),
                              ce_notes := Some (''Auto clocked-out: '' @ reason),
                              ce_status := Some ''pending''\<rparr>
                       else c) (clock_entries d)"
    by (simp add: autoClockOutOT_def Let_def sendNotification_def logNotification_def
        resolve_exit_events_def insert_notification_def min_def split: option.split)
  then show ?thesis
    by (simp add: filter_map o_def cong: filter_cong map_cong)
qed

text \<open>
  The overtime sweep of \<^verbatim>\<open>check-clock-status\<close> does cap: an entry it visits at least three
  hours after the clock-in is clocked out with \<open>total_hours = 3\<close>, by either branch.
\<close>

theorem overtime_sweep_caps_hours:
  assumes "3 \<le> (of_int (tick (ce_id ot) - clock_in ot) :: rat) / 3600000"
  shows "map total_hours (filter (\<lambda>c. ce_id c = ce_id ot)
           (clock_entries (fst (ot_session_step F tick tock date ot (d, n)))))
         = map (\<lambda>c. Some 3) (filter (\<lambda>c. ce_id c = ce_id ot) (clock_entries d))"
  using assms
  by (simp add: ot_session_step_def Let_def total_hours_autoClockOutOT min_def split: option.split)

text \<open>
  The same session, 4.5 hours open, visited by the sweep of \<^verbatim>\<open>check-clock-status\<close>.
\<close>

theorem overtime_sweep_caps_hours_witness:
  "map total_hours (filter (\<lambda>c. ce_id c = ce_id overtime_session)
      (clock_entries (fst (ot_session_step plain_text (\<lambda>i. 16200000) (\<lambda>i. 16200000) 0
         overtime_session (store [overtime_session] [], 0)))))
     = [Some 3]"
  using overtime_sweep_caps_hours
    [of "\<lambda>i. 16200000" overtime_session plain_text "\<lambda>i. 16200000" 0 "store [overtime_session] []" 0]
  by (simp add: ot_ex_defs)

end
